theory Spec2Isabelle
  imports Complex_Main "HOL-Library.Sublist" "HOL-Library.Multiset" "HOL-Library.AList"
    "HOL-Library.List_Lexorder" "HOL-Library.Char_ord"
begin

section \<open>Python helpers\<close>

text \<open>
  A Python \<open>str\<close> is represented by the list of the bytes of its UTF-8 encoding, so every
  ASCII literal of the source is the same literal here. Python floats that hold durations
  and scores are modelled as reals: the source only compares them with integer constants
  and adds small integers to them, which is exact in both.
\<close>

text \<open>
  \<open>list.sort(reverse=True, key=k)\<close>: CPython reverses the list, runs its stable sort
  and reverses the result, so equal keys keep their original order.
\<close>

definition py_sort_reverse :: "('a \<Rightarrow> 'k::linorder) \<Rightarrow> 'a list \<Rightarrow> 'a list" where
  "py_sort_reverse key xs = rev (sort_key key (rev xs))"

text \<open>The slice \<open>xs[start:stop]\<close> with Python's treatment of negative and oversized bounds.\<close>

definition py_slice_index :: "nat \<Rightarrow> int \<Rightarrow> nat" where
  "py_slice_index n i = (if i < 0 then nat (max (int n + i) 0) else min (nat i) n)"

definition py_slice :: "'a list \<Rightarrow> int \<Rightarrow> int \<Rightarrow> 'a list" where
  "py_slice xs start stop =
     (let lo = py_slice_index (length xs) start;
          hi = py_slice_index (length xs) stop
      in take (hi - lo) (drop lo xs))"

section \<open>Strings and paths\<close>

text \<open>
  The white space of \<open>str.strip()\<close> and \<open>str.split()\<close>: every code point for which
  \<open>str.isspace\<close> holds, in UTF-8.
\<close>

definition ws_seqs :: "string list" where
  "ws_seqs =
     [[CHR 0x09], [CHR 0x0A], [CHR 0x0B], [CHR 0x0C], [CHR 0x0D],
      [CHR 0x1C], [CHR 0x1D], [CHR 0x1E], [CHR 0x1F], [CHR 0x20],
      [CHR 0xC2, CHR 0x85], [CHR 0xC2, CHR 0xA0], [CHR 0xE1, CHR 0x9A, CHR 0x80],
      [CHR 0xE2, CHR 0x80, CHR 0x80], [CHR 0xE2, CHR 0x80, CHR 0x81],
      [CHR 0xE2, CHR 0x80, CHR 0x82], [CHR 0xE2, CHR 0x80, CHR 0x83],
      [CHR 0xE2, CHR 0x80, CHR 0x84], [CHR 0xE2, CHR 0x80, CHR 0x85],
      [CHR 0xE2, CHR 0x80, CHR 0x86], [CHR 0xE2, CHR 0x80, CHR 0x87],
      [CHR 0xE2, CHR 0x80, CHR 0x88], [CHR 0xE2, CHR 0x80, CHR 0x89],
      [CHR 0xE2, CHR 0x80, CHR 0x8A], [CHR 0xE2, CHR 0x80, CHR 0xA8],
      [CHR 0xE2, CHR 0x80, CHR 0xA9], [CHR 0xE2, CHR 0x80, CHR 0xAF],
      [CHR 0xE2, CHR 0x81, CHR 0x9F], [CHR 0xE3, CHR 0x80, CHR 0x80]]"

text \<open>The number of bytes of the white-space character at the start of a string, if any.\<close>

definition ws_len :: "string list \<Rightarrow> string \<Rightarrow> nat" where
  "ws_len seqs s = (case filter (\<lambda>w. prefix w s) seqs of [] \<Rightarrow> 0 | w # _ \<Rightarrow> length w)"

text \<open>The first argument counts the bytes of a white-space character still to be skipped.\<close>

fun lstrip_aux :: "string list \<Rightarrow> nat \<Rightarrow> string \<Rightarrow> string" where
  "lstrip_aux seqs k [] = []"
| "lstrip_aux seqs (Suc k) (c # cs) = lstrip_aux seqs k cs"
| "lstrip_aux seqs 0 (c # cs) =
     (if ws_len seqs (c # cs) = 0 then c # cs
      else lstrip_aux seqs (ws_len seqs (c # cs) - 1) cs)"

definition py_strip :: "string \<Rightarrow> string" where
  "py_strip s = rev (lstrip_aux (map rev ws_seqs) 0 (rev (lstrip_aux ws_seqs 0 s)))"

text \<open>\<open>s.strip(chars)\<close> for a set of ASCII characters.\<close>

definition py_strip_chars :: "char list \<Rightarrow> string \<Rightarrow> string" where
  "py_strip_chars cs s =
     rev (dropWhile (\<lambda>c. c \<in> set cs) (rev (dropWhile (\<lambda>c. c \<in> set cs) s)))"

text \<open>\<open>s.split(sep)\<close> for a one-character separator: never empty, keeps empty fields.\<close>

fun py_split :: "char \<Rightarrow> string \<Rightarrow> string list" where
  "py_split sep [] = [[]]"
| "py_split sep (c # cs) =
     (if c = sep then [] # py_split sep cs
      else (case py_split sep cs of [] \<Rightarrow> [[c]] | w # ws \<Rightarrow> (c # w) # ws))"

text \<open>\<open>s.split()\<close>: the maximal runs of characters that are not white space.\<close>

fun split_ws_aux :: "nat \<Rightarrow> string \<Rightarrow> string \<Rightarrow> string list" where
  "split_ws_aux k cur [] = (if cur = [] then [] else [cur])"
| "split_ws_aux (Suc k) cur (c # cs) = split_ws_aux k cur cs"
| "split_ws_aux 0 cur (c # cs) =
     (if ws_len ws_seqs (c # cs) = 0 then split_ws_aux 0 (cur @ [c]) cs
      else (if cur = [] then [] else [cur]) @ split_ws_aux (ws_len ws_seqs (c # cs) - 1) [] cs)"

definition py_split_ws :: "string \<Rightarrow> string list" where
  "py_split_ws s = split_ws_aux 0 [] s"

text \<open>\<open>len(s)\<close> counts code points: the bytes that are not UTF-8 continuation bytes.\<close>

definition py_len :: "string \<Rightarrow> nat" where
  "py_len s = length (filter (\<lambda>c. \<not> (128 \<le> (of_char c :: nat) \<and> (of_char c :: nat) < 192)) s)"

text \<open>\<open>sub in s\<close>, \<open>s.startswith(p)\<close> and \<open>s.endswith(p)\<close>.\<close>

fun contains :: "string \<Rightarrow> string \<Rightarrow> bool" where
  "contains sub [] = (sub = [])"
| "contains sub (c # cs) = (prefix sub (c # cs) \<or> contains sub cs)"

definition startswith :: "string \<Rightarrow> string \<Rightarrow> bool" where
  "startswith s p = prefix p s"

definition endswith :: "string \<Rightarrow> string \<Rightarrow> bool" where
  "endswith s p = prefix (rev p) (rev s)"

text \<open>\<open>f.readline()\<close> on a file just opened: the first line with its newline.\<close>

definition readline :: "string \<Rightarrow> string" where
  "readline c =
     takeWhile (\<lambda>x. x \<noteq> CHR 0x0A) c @ (if CHR 0x0A \<in> set c then [CHR 0x0A] else [])"

text \<open>The decimal digits of a number and the format \<open>{i:04d}\<close>.\<close>

fun dec :: "nat \<Rightarrow> string" where
  "dec n = (if n < 10 then [''0123456789'' ! n] else dec (n div 10) @ [''0123456789'' ! (n mod 10)])"

declare dec.simps [simp del]

definition fmt_04d :: "nat \<Rightarrow> string" where
  "fmt_04d i = replicate (4 - length (dec i)) (CHR ''0'') @ dec i"

type_synonym path = string

text \<open>\<open>os.path.join\<close> of two components, \<open>os.path.basename\<close> and the extension that
  \<open>os.path.splitext\<close> returns (from the last dot of the base name, unless only dots precede
  it).\<close>

definition dir_prefix :: "path \<Rightarrow> path" where
  "dir_prefix d = (if d = [] then [] else if last d = CHR ''/'' then d else d @ ''/'')"

definition path_join :: "path \<Rightarrow> path \<Rightarrow> path" where
  "path_join a b = (if startswith b ''/'' then b else dir_prefix a @ b)"

definition basename :: "path \<Rightarrow> string" where
  "basename p = rev (takeWhile (\<lambda>c. c \<noteq> CHR ''/'') (rev p))"

definition splitext_ext :: "path \<Rightarrow> string" where
  "splitext_ext p =
     (let b = basename p;
          ext = rev (takeWhile (\<lambda>c. c \<noteq> CHR ''.'') (rev b));
          stem = take (length b - length ext - 1) b
      in if CHR ''.'' \<in> set b \<and> filter (\<lambda>c. c \<noteq> CHR ''.'') stem \<noteq> []
         then CHR ''.'' # ext else [])"

section \<open>Floating-point numbers\<close>

text \<open>
  A Python \<open>float\<close> is a binary64 number, and an operation on floats gives the binary64
  number nearest to the exact result, a tie going to the even significand. \<open>binary64 x\<close> is
  that number for a real \<open>x\<close>: \<open>x\<close> is scaled by a power of two into the interval from
  \<open>2^52\<close> to \<open>2^53\<close>, rounded to an integer and scaled back. Numbers outside the range of the
  normal binary64 numbers (below \<open>2^-1022\<close> or above \<open>2^1024\<close> in absolute value), infinities
  and NaN are outside the model.
\<close>

definition round_half_even :: "real \<Rightarrow> int" where
  "round_half_even q =
     (let f = \<lfloor>q\<rfloor>; r = q - of_int f
      in if r < 1 / 2 then f
         else if 1 / 2 < r then f + 1
         else if even f then f else f + 1)"

fun scale53 :: "nat \<Rightarrow> real \<Rightarrow> int \<Rightarrow> real \<times> int" where
  "scale53 0 x e = (x, e)"
| "scale53 (Suc n) x e =
     (if x < 4503599627370496 then scale53 n (2 * x) (e - 1)
      else if 9007199254740992 \<le> x then scale53 n (x / 2) (e + 1)
      else (x, e))"

definition binary64_pos :: "real \<Rightarrow> real" where
  "binary64_pos x =
     (case scale53 2200 x 0 of
        (m, e) \<Rightarrow>
          if 0 \<le> e then of_int (round_half_even m) * 2 ^ nat e
          else of_int (round_half_even m) / 2 ^ nat (- e))"

definition binary64 :: "real \<Rightarrow> real" where
  "binary64 x =
     (if x = 0 then 0 else if x < 0 then - binary64_pos (- x) else binary64_pos x)"

text \<open>The product of two floats, the float that an integer is converted to, the quotient
  \<open>a / b\<close> of two integers, which Python rounds once, and \<open>int(x)\<close>, which truncates towards
  zero.\<close>

definition float_mul :: "real \<Rightarrow> real \<Rightarrow> real" where
  "float_mul a b = binary64 (a * b)"

definition float_of_int :: "int \<Rightarrow> real" where
  "float_of_int i = binary64 (of_int i)"

definition int_truediv :: "int \<Rightarrow> int \<Rightarrow> real" where
  "int_truediv a b = binary64 (of_int a / of_int b)"

definition py_int :: "real \<Rightarrow> int" where
  "py_int x = (if 0 \<le> x then \<lfloor>x\<rfloor> else \<lceil>x\<rceil>)"

text \<open>The binary64 numbers that the literals \<open>0.3\<close>, \<open>0.2\<close> and \<open>0.67\<close> denote.\<close>

definition float_0_3 :: real where
  "float_0_3 = 5404319552844595 / 18014398509481984"

definition float_0_2 :: real where
  "float_0_2 = 3602879701896397 / 18014398509481984"

definition float_0_67 :: real where
  "float_0_67 = 6034823500676465 / 9007199254740992"

section \<open>Speaker store data model\<close>

text \<open>
  One entry of a speaker's \<open>audio_files\<close> list. The dictionary keys that the source reads
  with \<open>.get\<close> are optional fields; the key \<open>text\<close> is the field \<open>transcript\<close>.
\<close>

record audio_info =
  path :: string
  original_path :: "string option"
  duration :: "real option"
  sample_rate :: "int option"
  uploaded_at :: "string option"
  transcript :: "string option"

text \<open>\<open>audio.get("duration", 0)\<close> and \<open>audio_info.get("sample_rate", 0)\<close>.\<close>

definition get_duration :: "audio_info \<Rightarrow> real" where
  "get_duration a = (case duration a of None \<Rightarrow> 0 | Some d \<Rightarrow> d)"

definition get_sample_rate :: "audio_info \<Rightarrow> int" where
  "get_sample_rate a = (case sample_rate a of None \<Rightarrow> 0 | Some r \<Rightarrow> r)"

section \<open>Reference scorer\<close>

text \<open>The two bonus chains of \<open>_calculate_audio_quality_score\<close>, in the source's order.\<close>

definition duration_bonus :: "real \<Rightarrow> real" where
  "duration_bonus d =
     (if 10 \<le> d \<and> d \<le> 20 then 30
      else if 8 \<le> d \<and> d \<le> 25 then 20
      else if 5 \<le> d \<and> d \<le> 30 then 10
      else 0)"

definition sample_rate_bonus :: "int \<Rightarrow> real" where
  "sample_rate_bonus r = (if r \<ge> 32000 then 20 else if r \<ge> 22050 then 10 else 0)"

definition calculate_audio_quality_score :: "audio_info \<Rightarrow> real" where
  "calculate_audio_quality_score a =
     (let score = 50;
          score = score + duration_bonus (get_duration a);
          score = score + sample_rate_bonus (get_sample_rate a)
      in min score 100)"

text \<open>
  The exceptions raised by the reference selection. Both are plain \<open>Exception\<close>s in the
  source and differ by their message: the first says that there is no audio file, the second
  that no audio has a duration of 3 to 10 seconds and lists the duration of every entry of
  \<open>audio_files\<close> (each printed with one decimal).
\<close>

datatype select_error =
    NoAudioFiles
  | NoEligibleReference "real list"

definition valid_audios :: "audio_info list \<Rightarrow> audio_info list" where
  "valid_audios audio_files =
     filter (\<lambda>audio. 3 \<le> get_duration audio \<and> get_duration audio \<le> 10) audio_files"

definition scored_audios :: "audio_info list \<Rightarrow> (real \<times> audio_info) list" where
  "scored_audios audio_files =
     py_sort_reverse fst
       (map (\<lambda>audio. (calculate_audio_quality_score audio, audio)) (valid_audios audio_files))"

definition select_best_reference_audio :: "audio_info list \<Rightarrow> select_error + audio_info" where
  "select_best_reference_audio audio_files =
     (if audio_files = [] then Inl NoAudioFiles
      else if valid_audios audio_files = []
      then Inl (NoEligibleReference (map get_duration audio_files))
      else Inr (snd (hd (scored_audios audio_files))))"

definition select_auxiliary_references :: "audio_info list \<Rightarrow> int \<Rightarrow> audio_info list" where
  "select_auxiliary_references audio_files count_arg =
     (if audio_files = [] \<or> length audio_files \<le> 1 then []
      else if length (valid_audios audio_files) \<le> 1 then []
      else let scored = scored_audios audio_files;
               aux_count = min count_arg (int (length scored) - 1)
           in map snd (py_slice scored 1 (aux_count + 1)))"

section \<open>Errors\<close>

text \<open>
  An \<open>err\<close> is the message of an exception, or an error text stored in a result; the
  handlers of the source catch every \<open>Exception\<close> and only use \<open>str(e)\<close>, so the message
  stands for the exception. The constructors \<open>PreprocessingFailed\<close>, \<open>Stage1Failed\<close> and
  \<open>Stage2Failed\<close> are the three fixed texts that \<open>train_speaker_complete\<close> stores, and
  \<open>TrainingFailed e\<close> is the text of \<open>e\<close> behind the prefix for a failed training.
\<close>

datatype err =
    FileNotFoundError path
  | IsADirectoryError path
  | NotADirectoryError path
  | ZeroDivisionError
  | SameFileError path path
  | ExternalError string
  | WavDirMissing path
  | HubertDirMissing path
  | TextAnnotationMissing path
  | PreprocessingFailed
  | Stage1Failed
  | Stage2Failed
  | NoneText
  | TrainingFailed err
  | SpeakerNotFound string
  | NotEnoughAudio nat
  | TrainerNotInitialised
  | ProcessingFailed err
  | SpeakerDataNotFound string
  | NotTrained string nat
  | ModelPathsIncomplete
  | ApiGenerationFailed
  | SelectionFailed select_error
  | SynthesisFailed err

section \<open>File system\<close>

text \<open>
  The file system is a list of paths with their nodes; paths are compared as written. A
  file holds the text that reading it in text mode returns. The operations below raise what
  the Python calls raise on a missing path or on a node of the wrong kind; failures of the
  operating system itself (permissions, full disk) are outside the model.
\<close>

datatype node = Dir | File (content: string)

type_synonym fs = "(path \<times> node) list"

definition path_exists :: "fs \<Rightarrow> path \<Rightarrow> bool" where
  "path_exists fs p = (map_of fs p \<noteq> None)"

definition is_under :: "path \<Rightarrow> path \<Rightarrow> bool" where
  "is_under d q = (prefix (dir_prefix d) q \<and> length (dir_prefix d) < length q)"

definition read_file :: "fs \<Rightarrow> path \<Rightarrow> err + string" where
  "read_file fs p =
     (case map_of fs p of
        None \<Rightarrow> Inl (FileNotFoundError p)
      | Some Dir \<Rightarrow> Inl (IsADirectoryError p)
      | Some (File c) \<Rightarrow> Inr c)"

definition write_file :: "fs \<Rightarrow> path \<Rightarrow> string \<Rightarrow> fs" where
  "write_file fs p c = AList.update p (File c) fs"

definition rmtree :: "fs \<Rightarrow> path \<Rightarrow> err + fs" where
  "rmtree fs p =
     (case map_of fs p of
        None \<Rightarrow> Inl (FileNotFoundError p)
      | Some (File c) \<Rightarrow> Inl (NotADirectoryError p)
      | Some Dir \<Rightarrow> Inr (filter (\<lambda>(q, n). q \<noteq> p \<and> \<not> is_under p q) fs))"

definition os_remove :: "fs \<Rightarrow> path \<Rightarrow> err + fs" where
  "os_remove fs p =
     (case map_of fs p of
        None \<Rightarrow> Inl (FileNotFoundError p)
      | Some Dir \<Rightarrow> Inl (IsADirectoryError p)
      | Some (File c) \<Rightarrow> Inr (filter (\<lambda>(q, n). q \<noteq> p) fs))"

text \<open>\<open>os.makedirs(p, exist_ok=True)\<close>: the directory and its missing ancestors.\<close>

fun ancestors :: "path \<Rightarrow> path \<Rightarrow> path list" where
  "ancestors acc [] = []"
| "ancestors acc (c # cs) =
     (if c = CHR ''/'' \<and> acc \<noteq> [] then [acc] else []) @ ancestors (acc @ [c]) cs"

definition mkdir_if_missing :: "path \<Rightarrow> fs \<Rightarrow> fs" where
  "mkdir_if_missing d fs = (if path_exists fs d then fs else fs @ [(d, Dir)])"

definition makedirs :: "fs \<Rightarrow> path \<Rightarrow> fs" where
  "makedirs fs p = fold mkdir_if_missing (ancestors [] p @ [p]) fs"

text \<open>\<open>os.listdir(d)\<close>: the names of the entries directly in \<open>d\<close>.\<close>

definition entries :: "fs \<Rightarrow> path \<Rightarrow> string list" where
  "entries fs d =
     filter (\<lambda>n. n \<noteq> [] \<and> CHR ''/'' \<notin> set n)
       (map (\<lambda>(q, n). drop (length (dir_prefix d)) q)
          (filter (\<lambda>(q, n). is_under d q) fs))"

definition listdir :: "fs \<Rightarrow> path \<Rightarrow> err + string list" where
  "listdir fs d =
     (case map_of fs d of
        None \<Rightarrow> Inl (FileNotFoundError d)
      | Some (File c) \<Rightarrow> Inl (NotADirectoryError d)
      | Some Dir \<Rightarrow> Inr (entries fs d))"

text \<open>\<open>os.path.getsize\<close> of an existing path is zero only for an empty file.\<close>

definition size_is_zero :: "fs \<Rightarrow> path \<Rightarrow> bool" where
  "size_is_zero fs p = (map_of fs p = Some (File []))"

text \<open>A loop over a fixed list of names whose body may raise: it stops at the first
  exception and returns the file system reached.\<close>

fun for_each :: "('a \<Rightarrow> fs \<Rightarrow> err + fs) \<Rightarrow> 'a list \<Rightarrow> fs \<Rightarrow> err option \<times> fs" where
  "for_each body [] fs = (None, fs)"
| "for_each body (x # xs) fs =
     (case body x fs of Inl e \<Rightarrow> (Some e, fs) | Inr fs' \<Rightarrow> for_each body xs fs')"

section \<open>Results and store records\<close>

text \<open>The result dictionary of \<open>train_speaker_complete\<close> (its time stamps and its duration,
  which nothing reads, are left out).\<close>

record train_result =
  res_speaker_name :: string
  res_status :: string
  res_gpt_model :: "path option"
  res_sovits_model :: "path option"
  res_exp_dir :: "path option"
  res_error :: "err option"

text \<open>The dictionary that \<open>_train_with_sovits_complete\<close> returns and that \<open>train_speaker\<close>
  stores as the speaker's \<open>model_info\<close>. The two artifact paths are copied from the training
  result, where they start as \<open>None\<close>.\<close>

record model_result =
  mr_model_path :: path
  mr_gpt_model :: "path option"
  mr_sovits_model :: "path option"
  mr_method :: string
  mr_quality :: string

text \<open>One value of \<open>speakers_data\<close>; the key \<open>audio_files\<close> is the field
  \<open>the_audio_files\<close>. A missing key \<open>trained\<close> reads as false.\<close>

record speaker_info =
  the_audio_files :: "audio_info list"
  created_at :: string
  trained :: bool
  model_path :: "path option"
  model_info :: "model_result option"
  trained_at :: "string option"
  training_epochs :: "int option"

section \<open>External collaborators\<close>

text \<open>
  The steps that run outside the orchestrator. \<open>launched\<close> records, in order, the steps
  the orchestrator has started; the effect of each step on the file system and its exit
  code are given by the environment, as are the results of the libraries that decode
  tables, checkpoints, configurations and audio.

  \<open>aliased p q\<close> says that \<open>p\<close> and \<open>q\<close> are two names of one file. \<open>convert_checkpoint\<close>
  gives the epoch read from the checkpoint, what \<open>torch.save\<close> leaves in the output file and
  whether it finished; \<open>None\<close> is a failure before the output file is opened.
  \<open>silent_wav n\<close> is a clip of \<open>n\<close> zero samples at 32000 Hz. \<open>abspath p\<close> is the name under
  which the file system of the model holds the file that the relative path \<open>p\<close> names.
\<close>

datatype step = Asr | Step1a | Step1b | Step1c | S1Train | S2Train

text \<open>
  The two diagnoses of a row-count difference that the orchestrator prints: the warning
  after preprocessing, with the number of transcript entries minus the number of rows of the
  semantic table, and the error before stage 1, with the number of rows, the number of
  phoneme entries and the absolute difference. The other lines that the source prints are
  left out.
\<close>

datatype notice =
    CountWarning int
  | CountMismatch nat nat nat

record world =
  files :: fs
  launched :: "step list"
  printed :: "notice list"

record tts_request =
  req_text :: string
  req_text_lang :: string
  req_ref_audio_path :: path
  req_prompt_text :: string
  req_aux_ref_audio_paths :: "path list"

record env =
  run_proc :: "step \<Rightarrow> fs \<Rightarrow> int \<times> fs"
  execute_asr :: "path \<Rightarrow> path \<Rightarrow> fs \<Rightarrow> (err + path) \<times> fs"
  read_csv_rows :: "string \<Rightarrow> nat option"
  getmtime :: "path \<Rightarrow> nat"
  render_s1_config :: "string \<Rightarrow> path \<Rightarrow> string \<Rightarrow> int \<Rightarrow> int \<Rightarrow> err + string"
  render_s2_config :: "string \<Rightarrow> path \<Rightarrow> string \<Rightarrow> int \<Rightarrow> int \<Rightarrow> err + string"
  convert_checkpoint :: "string \<Rightarrow> string \<Rightarrow> (string \<times> string \<times> bool) option"
  librosa_load :: "string \<Rightarrow> err + (nat \<times> int)"
  resample_to_32k :: "string \<Rightarrow> string"
  silent_wav :: "int \<Rightarrow> string"
  aliased :: "path \<Rightarrow> path \<Rightarrow> bool"
  abspath :: "path \<Rightarrow> path"
  http_set_gpt_weights :: "path \<Rightarrow> bool"
  http_set_sovits_weights :: "path \<Rightarrow> bool"
  http_tts :: "tts_request \<Rightarrow> string option"
  dump_model_info :: "train_result \<Rightarrow> nat \<Rightarrow> int \<Rightarrow> int \<Rightarrow> string"
  dump_speakers :: "(string \<times> speaker_info) list \<Rightarrow> string"

definition run_step :: "env \<Rightarrow> step \<Rightarrow> world \<Rightarrow> int \<times> world" where
  "run_step env s w =
     (case run_proc env s (files w) of
        (rc, fs') \<Rightarrow> (rc, w\<lparr>files := fs', launched := launched w @ [s]\<rparr>))"

text \<open>
  \<open>shutil.copy2(src, dst)\<close> and \<open>shutil.copy(src, dst)\<close> of a file onto a file name: they
  refuse to copy a file onto itself, whatever the two names are, and then read the source.
\<close>

definition same_file :: "env \<Rightarrow> fs \<Rightarrow> path \<Rightarrow> path \<Rightarrow> bool" where
  "same_file env fs src dst =
     (path_exists fs src \<and> path_exists fs dst \<and> (src = dst \<or> aliased env src dst))"

definition copy2 :: "env \<Rightarrow> fs \<Rightarrow> path \<Rightarrow> path \<Rightarrow> err + fs" where
  "copy2 env fs src dst =
     (if same_file env fs src dst then Inl (SameFileError src dst)
      else (case read_file fs src of Inl e \<Rightarrow> Inl e | Inr c \<Rightarrow> Inr (write_file fs dst c)))"

section \<open>Training orchestrator: data staging\<close>

record trainer =
  sovits_path :: path
  exp_root :: path

text \<open>The three Chinese texts of \<open>prepare_training_data\<close>, in UTF-8: the marker of a
  placeholder transcript, the default text of a sample that the supplied map does not
  cover, and the placeholder text (the marker followed by a full stop).\<close>

definition placeholder_marker :: string where
  "placeholder_marker =
     [CHR 0xE8, CHR 0xBF, CHR 0x99, CHR 0xE6, CHR 0x98, CHR 0xAF, CHR 0xE4, CHR 0xB8, CHR 0x80,
      CHR 0xE6, CHR 0xAE, CHR 0xB5, CHR 0xE8, CHR 0xAE, CHR 0xAD, CHR 0xE7, CHR 0xBB, CHR 0x83,
      CHR 0xE8, CHR 0xAF, CHR 0xAD, CHR 0xE9, CHR 0x9F, CHR 0xB3]"

definition default_text :: string where
  "default_text =
     [CHR 0xE8, CHR 0xBF, CHR 0x99, CHR 0xE6, CHR 0x98, CHR 0xAF, CHR 0xE4, CHR 0xB8, CHR 0x80,
      CHR 0xE6, CHR 0xAE, CHR 0xB5, CHR 0xE8, CHR 0xAF, CHR 0xAD, CHR 0xE9, CHR 0x9F, CHR 0xB3,
      CHR 0xE3, CHR 0x80, CHR 0x82]"

definition placeholder_text :: string where
  "placeholder_text = placeholder_marker @ [CHR 0xE3, CHR 0x80, CHR 0x82]"

text \<open>The loop that copies the samples under their canonical names, from index \<open>i\<close>;
  it returns the names of the copies.\<close>

fun copy_audio_files ::
  "env \<Rightarrow> path \<Rightarrow> string \<Rightarrow> fs \<Rightarrow> nat \<Rightarrow> audio_info list \<Rightarrow> (err + string list) \<times> fs" where
  "copy_audio_files env input_wav_dir speaker_name fs i [] = (Inr [], fs)"
| "copy_audio_files env input_wav_dir speaker_name fs i (audio_info # rest) =
     (let src_path = path audio_info in
      if \<not> path_exists fs src_path
      then copy_audio_files env input_wav_dir speaker_name fs (i + 1) rest
      else
        let ext = splitext_ext src_path;
            dst_filename = speaker_name @ ''_'' @ fmt_04d i @ ext;
            dst_path = path_join input_wav_dir dst_filename
        in (case copy2 env fs src_path dst_path of
              Inl e \<Rightarrow> (Inl e, fs)
            | Inr fs' \<Rightarrow>
                (case copy_audio_files env input_wav_dir speaker_name fs' (i + 1) rest of
                   (Inl e, fs'') \<Rightarrow> (Inl e, fs'')
                 | (Inr copied, fs'') \<Rightarrow> (Inr (dst_filename # copied), fs''))))"

text \<open>The line \<open>{input_wav_dir}/{dst_filename}|{speaker_name}|ZH|{text}\<close> of the
  transcript file.\<close>

definition transcript_line :: "path \<Rightarrow> string \<Rightarrow> string \<Rightarrow> string \<Rightarrow> string" where
  "transcript_line input_wav_dir dst_filename speaker_name txt =
     input_wav_dir @ ''/'' @ dst_filename @ ''|'' @ speaker_name @ ''|ZH|'' @ txt @ [CHR 0x0A]"

text \<open>An existing transcript file is kept when its first line is not a placeholder and
  is longer than 50 characters.\<close>

definition existing_text_usable :: "fs \<Rightarrow> path \<Rightarrow> err + bool" where
  "existing_text_usable fs text_file =
     (if path_exists fs text_file
      then (case read_file fs text_file of
              Inl e \<Rightarrow> Inl e
            | Inr c \<Rightarrow>
                let first_line = readline c
                in Inr (\<not> contains placeholder_marker first_line
                        \<and> py_len (py_strip first_line) > 50))
      else Inr False)"

definition text_from_map ::
  "path \<Rightarrow> string \<Rightarrow> (string \<times> string) list \<Rightarrow> audio_info list \<Rightarrow> string list \<Rightarrow> string" where
  "text_from_map input_wav_dir speaker_name audio_text_map audio_files copied_files =
     concat (map (\<lambda>(audio_info, dst_filename).
                    transcript_line input_wav_dir dst_filename speaker_name
                      (case map_of audio_text_map (basename (path audio_info)) of
                         None \<Rightarrow> default_text | Some t \<Rightarrow> t))
                 (zip audio_files copied_files))"

definition placeholder_transcript :: "path \<Rightarrow> string \<Rightarrow> string list \<Rightarrow> string" where
  "placeholder_transcript input_wav_dir speaker_name copied_files =
     concat (map (\<lambda>dst_filename.
                    transcript_line input_wav_dir dst_filename speaker_name placeholder_text)
                 copied_files)"

text \<open>The call of the transcription collaborator; any exception in it, and a missing
  output file, leave \<open>asr_success\<close> false.\<close>

definition run_asr :: "env \<Rightarrow> path \<Rightarrow> path \<Rightarrow> path \<Rightarrow> world \<Rightarrow> bool \<times> world" where
  "run_asr env input_wav_dir exp_dir text_file w =
     (case execute_asr env input_wav_dir exp_dir (files w) of
        (Inl e, fs') \<Rightarrow> (False, w\<lparr>files := fs', launched := launched w @ [Asr]\<rparr>)
      | (Inr asr_output, fs') \<Rightarrow>
          if path_exists fs' asr_output
          then (case copy2 env fs' asr_output text_file of
                  Inl e \<Rightarrow> (False, w\<lparr>files := fs', launched := launched w @ [Asr]\<rparr>)
                | Inr fs'' \<Rightarrow> (True, w\<lparr>files := fs'', launched := launched w @ [Asr]\<rparr>))
          else (False, w\<lparr>files := fs', launched := launched w @ [Asr]\<rparr>))"

definition prepare_training_data ::
  "env \<Rightarrow> trainer \<Rightarrow> string \<Rightarrow> audio_info list \<Rightarrow> (string \<times> string) list \<Rightarrow> world
     \<Rightarrow> (err + path) \<times> world" where
  "prepare_training_data env tr speaker_name audio_files audio_text_map w =
     (let exp_dir = path_join (exp_root tr) speaker_name;
          input_wav_dir = path_join exp_dir ''input_wavs'';
          fs1 = makedirs (makedirs (files w) exp_dir) input_wav_dir
      in (case copy_audio_files env input_wav_dir speaker_name fs1 0 audio_files of
            (Inl e, fs2) \<Rightarrow> (Inl e, w\<lparr>files := fs2\<rparr>)
          | (Inr copied_files, fs2) \<Rightarrow>
              let text_file = path_join exp_dir ''input_text.txt'' in
              (case existing_text_usable fs2 text_file of
                 Inl e \<Rightarrow> (Inl e, w\<lparr>files := fs2\<rparr>)
               | Inr True \<Rightarrow> (Inr exp_dir, w\<lparr>files := fs2\<rparr>)
               | Inr False \<Rightarrow>
                   if audio_text_map \<noteq> []
                   then (Inr exp_dir,
                         w\<lparr>files := write_file fs2 text_file
                              (text_from_map input_wav_dir speaker_name audio_text_map
                                 audio_files copied_files)\<rparr>)
                   else (case run_asr env input_wav_dir exp_dir text_file (w\<lparr>files := fs2\<rparr>) of
                           (True, w') \<Rightarrow> (Inr exp_dir, w')
                         | (False, w') \<Rightarrow>
                             (Inr exp_dir,
                              w'\<lparr>files := write_file (files w') text_file
                                   (placeholder_transcript input_wav_dir speaker_name
                                      copied_files)\<rparr>)))))"

section \<open>Training orchestrator: preprocessing\<close>

text \<open>The three clean-up loops at the start of \<open>run_data_preprocessing\<close>.\<close>

definition rmtree_if_exists :: "path \<Rightarrow> string \<Rightarrow> fs \<Rightarrow> err + fs" where
  "rmtree_if_exists exp_dir subdir fs =
     (let dir_path = path_join exp_dir subdir
      in if path_exists fs dir_path then rmtree fs dir_path else Inr fs)"

definition remove_if_exists :: "path \<Rightarrow> string \<Rightarrow> fs \<Rightarrow> err + fs" where
  "remove_if_exists exp_dir old_file fs =
     (let file_path = path_join exp_dir old_file
      in if path_exists fs file_path then os_remove fs file_path else Inr fs)"

definition clean_previous_outputs :: "path \<Rightarrow> fs \<Rightarrow> err option \<times> fs" where
  "clean_previous_outputs exp_dir fs =
     (case for_each (rmtree_if_exists exp_dir)
             [''2-name2text'', ''3-bert'', ''4-cnhubert'', ''5-wav32k'', ''6-name2semantic''] fs of
        (Some e, fs1) \<Rightarrow> (Some e, fs1)
      | (None, fs1) \<Rightarrow>
          (case for_each (rmtree_if_exists exp_dir) [''logs_s1/ckpt'', ''logs_s2_v2''] fs1 of
             (Some e, fs2) \<Rightarrow> (Some e, fs2)
           | (None, fs2) \<Rightarrow>
               for_each (remove_if_exists exp_dir)
                 [''2-name2text-0.txt'', ''6-name2semantic-0.tsv''] fs2))"

text \<open>\<open>os.listdir(d) if os.path.exists(d) else []\<close>, used for the counts that are printed.\<close>

definition listdir_if_exists :: "fs \<Rightarrow> path \<Rightarrow> err + string list" where
  "listdir_if_exists fs d = (if path_exists fs d then listdir fs d else Inr [])"

text \<open>The transcript entries: one per non-empty line of the stripped transcript file.\<close>

definition expected_files :: "string \<Rightarrow> string list" where
  "expected_files c =
     map (\<lambda>line. basename (case py_split (CHR ''|'') line of [] \<Rightarrow> [] | x # _ \<Rightarrow> x))
       (filter (\<lambda>line. line \<noteq> []) (py_split (CHR 0x0A) (py_strip c)))"

text \<open>The row count of the semantic table as \<open>pandas.read_csv\<close> gives it; \<open>None\<close> when
  reading raises.\<close>

definition semantic_rows :: "env \<Rightarrow> fs \<Rightarrow> path \<Rightarrow> nat option" where
  "semantic_rows env fs semantic_file =
     (case map_of fs semantic_file of
        Some (File c) \<Rightarrow> read_csv_rows env c
      | _ \<Rightarrow> None)"

text \<open>The diagnostics printed for an empty semantic table read three places again.\<close>

definition empty_output_diagnostics :: "fs \<Rightarrow> path \<Rightarrow> err option" where
  "empty_output_diagnostics fs exp_dir =
     (let input_text_file = path_join exp_dir ''input_text.txt'' in
      case (if path_exists fs input_text_file then read_file fs input_text_file else Inr []) of
        Inl e \<Rightarrow> Some e
      | Inr c \<Rightarrow>
          (case listdir_if_exists fs (path_join exp_dir ''4-cnhubert'') of
             Inl e \<Rightarrow> Some e
           | Inr hubert_files \<Rightarrow>
               (case listdir_if_exists fs (path_join exp_dir ''5-wav32k'') of
                  Inl e \<Rightarrow> Some e
                | Inr wav_files \<Rightarrow> None)))"

text \<open>
  The checks after step 1c. A row count that differs from the number of transcript entries
  only prints a warning (and reads the table once more for the diagnosis); the result is
  false only for a missing or an empty table.
\<close>

definition check_semantic_output :: "env \<Rightarrow> path \<Rightarrow> string list \<Rightarrow> fs \<Rightarrow> err + bool" where
  "check_semantic_output env exp_dir expected fs =
     (let semantic_file = path_join exp_dir ''6-name2semantic-0.tsv'' in
      if \<not> path_exists fs semantic_file then Inr False
      else
        let semantic_count = (case semantic_rows env fs semantic_file of None \<Rightarrow> 0 | Some n \<Rightarrow> n)
        in (case (if semantic_count \<noteq> length expected then read_file fs semantic_file
                  else Inr []) of
              Inl e \<Rightarrow> Inl e
            | Inr lines \<Rightarrow>
                if size_is_zero fs semantic_file
                then (case empty_output_diagnostics fs exp_dir of
                        Some e \<Rightarrow> Inl e | None \<Rightarrow> Inr False)
                else Inr True))"

text \<open>The warning that these checks print for a row count that differs from the number of
  transcript entries.\<close>

definition semantic_notices :: "env \<Rightarrow> path \<Rightarrow> string list \<Rightarrow> fs \<Rightarrow> notice list" where
  "semantic_notices env exp_dir expected fs =
     (let semantic_file = path_join exp_dir ''6-name2semantic-0.tsv'' in
      if \<not> path_exists fs semantic_file then []
      else
        let semantic_count = (case semantic_rows env fs semantic_file of None \<Rightarrow> 0 | Some n \<Rightarrow> n)
        in if semantic_count \<noteq> length expected
           then [CountWarning (int (length expected) - int semantic_count)]
           else [])"

definition run_data_preprocessing ::
  "env \<Rightarrow> path \<Rightarrow> string \<Rightarrow> world \<Rightarrow> (err + bool) \<times> world" where
  "run_data_preprocessing env exp_dir speaker_name w =
     (case clean_previous_outputs exp_dir (files w) of
        (Some e, fs0) \<Rightarrow> (Inl e, w\<lparr>files := fs0\<rparr>)
      | (None, fs0) \<Rightarrow>
          let w0 = w\<lparr>files := fs0\<rparr>;
              input_text = path_join exp_dir ''input_text.txt''
          in if \<not> path_exists fs0 input_text then (Inr False, w0)
             else
               (case run_step env Step1a w0 of (rc_a, w1) \<Rightarrow>
                if rc_a \<noteq> 0 then (Inr False, w1)
                else
                  (case listdir_if_exists (files w1) (path_join exp_dir ''2-name2text'') of
                     Inl e \<Rightarrow> (Inl e, w1)
                   | Inr bert_files \<Rightarrow>
                  (case run_step env Step1b w1 of (rc_b, w2) \<Rightarrow>
                   if rc_b \<noteq> 0 then (Inr False, w2)
                   else
                     (case listdir_if_exists (files w2) (path_join exp_dir ''4-cnhubert'') of
                        Inl e \<Rightarrow> (Inl e, w2)
                      | Inr hubert_files \<Rightarrow>
                     (case listdir_if_exists (files w2) (path_join exp_dir ''5-wav32k'') of
                        Inl e \<Rightarrow> (Inl e, w2)
                      | Inr wav32_files \<Rightarrow>
                     (case read_file (files w2) input_text of
                        Inl e \<Rightarrow> (Inl e, w2)
                      | Inr c \<Rightarrow>
                     (case run_step env Step1c w2 of (rc_c, w3) \<Rightarrow>
                      if rc_c \<noteq> 0 then (Inr False, w3)
                      else (check_semantic_output env exp_dir (expected_files c) (files w3),
                            w3\<lparr>printed := printed w3 @
                                 semantic_notices env exp_dir (expected_files c)
                                   (files w3)\<rparr>)))))))))"

section \<open>Training orchestrator: stage 1\<close>

text \<open>The phoneme entries: the distinct first fields of the lines with four
  tab-separated fields.\<close>

definition phoneme_count :: "string \<Rightarrow> nat" where
  "phoneme_count c =
     length (remdups
       (map (\<lambda>tmp. case tmp of [] \<Rightarrow> [] | k # _ \<Rightarrow> k)
          (filter (\<lambda>tmp. length tmp = 4)
             (map (py_split (CHR 0x09)) (py_split (CHR 0x0A) (py_strip_chars [CHR 0x0A] c))))))"

text \<open>The entry with the latest modification time, the first of them in listing order.\<close>

definition newest :: "env \<Rightarrow> path \<Rightarrow> string list \<Rightarrow> string option" where
  "newest env logs_dir names =
     (case py_sort_reverse (\<lambda>x. getmtime env (path_join logs_dir x)) names of
        [] \<Rightarrow> None | f # _ \<Rightarrow> Some f)"

definition find_s1_checkpoint :: "env \<Rightarrow> path \<Rightarrow> fs \<Rightarrow> err + path option" where
  "find_s1_checkpoint env exp_dir fs =
     (let logs_dir = path_join exp_dir ''logs_s1'' in
      if \<not> path_exists fs logs_dir then Inr None
      else (case listdir fs logs_dir of
              Inl e \<Rightarrow> Inl e
            | Inr names \<Rightarrow>
                (case newest env logs_dir (filter (\<lambda>f. endswith f ''.ckpt'') names) of
                   None \<Rightarrow> Inr None
                 | Some f \<Rightarrow> Inr (Some (path_join logs_dir f)))))"

text \<open>
  The validation before stage 1: \<open>None\<close> when the table cannot be read, or when its row
  count differs from the number of phoneme entries, or when it is zero. A difference is
  printed with the two counts and its absolute value.
\<close>

definition s1_notices :: "env \<Rightarrow> path \<Rightarrow> fs \<Rightarrow> notice list" where
  "s1_notices env exp_dir fs =
     (case semantic_rows env fs (path_join exp_dir ''6-name2semantic-0.tsv'') of
        None \<Rightarrow> []
      | Some semantic_count \<Rightarrow>
          (case read_file fs (path_join exp_dir ''2-name2text-0.txt'') of
             Inl e \<Rightarrow> []
           | Inr c \<Rightarrow>
               if semantic_count \<noteq> phoneme_count c
               then [CountMismatch semantic_count (phoneme_count c)
                       (nat \<bar>int semantic_count - int (phoneme_count c)\<bar>)]
               else []))"

definition s1_data_valid :: "env \<Rightarrow> path \<Rightarrow> fs \<Rightarrow> err + bool" where
  "s1_data_valid env exp_dir fs =
     (case semantic_rows env fs (path_join exp_dir ''6-name2semantic-0.tsv'') of
        None \<Rightarrow> Inr False
      | Some semantic_count \<Rightarrow>
          (case read_file fs (path_join exp_dir ''2-name2text-0.txt'') of
             Inl e \<Rightarrow> Inl e
           | Inr c \<Rightarrow>
               if semantic_count \<noteq> phoneme_count c then Inr False
               else if semantic_count = 0 then Inr False
               else Inr True))"

definition train_stage1_gpt ::
  "env \<Rightarrow> trainer \<Rightarrow> path \<Rightarrow> string \<Rightarrow> int \<Rightarrow> int \<Rightarrow> world \<Rightarrow> (err + path option) \<times> world" where
  "train_stage1_gpt env tr exp_dir speaker_name epochs batch_size w =
     (case s1_data_valid env exp_dir (files w) of
        Inl e \<Rightarrow> (Inl e, w)
      | Inr False \<Rightarrow>
          (Inr None, w\<lparr>printed := printed w @ s1_notices env exp_dir (files w)\<rparr>)
      | Inr True \<Rightarrow>
          (case read_file (files w)
                  (path_join (sovits_path tr) ''GPT_SoVITS/configs/s1longer-v2.yaml'') of
             Inl e \<Rightarrow> (Inl e, w)
           | Inr template \<Rightarrow>
               (case render_s1_config env template exp_dir speaker_name epochs batch_size of
                  Inl e \<Rightarrow> (Inl e, w)
                | Inr config \<Rightarrow>
                    let w1 = w\<lparr>files := write_file (files w)
                                 (path_join exp_dir ''s1_config.yaml'') config\<rparr>
                    in (case run_step env S1Train w1 of (rc, w2) \<Rightarrow>
                        if rc \<noteq> 0 then (Inr None, w2)
                        else (find_s1_checkpoint env exp_dir (files w2), w2)))))"

section \<open>Training orchestrator: stage 2\<close>

text \<open>The preconditions of stage 2 and the copy of the phoneme file it needs.\<close>

definition s2_prepare_inputs :: "env \<Rightarrow> path \<Rightarrow> fs \<Rightarrow> err + fs" where
  "s2_prepare_inputs env exp_dir fs =
     (let wav_dir = path_join exp_dir ''5-wav32k'';
          cnhubert_dir = path_join exp_dir ''4-cnhubert'';
          name2text_src = path_join exp_dir ''2-name2text-0.txt'';
          name2text_dst = path_join exp_dir ''2-name2text.txt''
      in if \<not> path_exists fs wav_dir then Inl (WavDirMissing wav_dir)
         else if \<not> path_exists fs cnhubert_dir then Inl (HubertDirMissing cnhubert_dir)
         else if \<not> path_exists fs name2text_dst
         then (if path_exists fs name2text_src then copy2 env fs name2text_src name2text_dst
               else Inl (TextAnnotationMissing name2text_src))
         else Inr fs)"

text \<open>An exported weight file is named by the speaker and an epoch.\<close>

definition is_weight_file :: "string \<Rightarrow> string \<Rightarrow> bool" where
  "is_weight_file speaker_name f =
     (endswith f ''.pth'' \<and> contains speaker_name f \<and> contains ''_e'' f
      \<and> \<not> startswith f ''G_'' \<and> \<not> startswith f ''D_'')"

text \<open>\<open>_convert_checkpoint_to_weight\<close>: any exception in it gives \<open>None\<close>; one inside
  \<open>torch.save\<close> leaves behind the output file that it has opened.\<close>

definition convert_checkpoint_to_weight ::
  "env \<Rightarrow> path \<Rightarrow> path \<Rightarrow> string \<Rightarrow> path \<Rightarrow> fs \<Rightarrow> path option \<times> fs" where
  "convert_checkpoint_to_weight env checkpoint_path output_dir speaker_name config_path fs =
     (case read_file fs checkpoint_path of
        Inl e \<Rightarrow> (None, fs)
      | Inr checkpoint \<Rightarrow>
          (case read_file fs config_path of
             Inl e \<Rightarrow> (None, fs)
           | Inr config \<Rightarrow>
               (case convert_checkpoint env checkpoint config of
                  None \<Rightarrow> (None, fs)
                | Some (epoch, written, saved) \<Rightarrow>
                    let output_filename = speaker_name @ ''_e'' @ epoch @ ''.pth'';
                        output_path = path_join output_dir output_filename
                    in (if saved then Some output_path else None,
                        write_file fs output_path written))))"

definition find_s2_model :: "env \<Rightarrow> path \<Rightarrow> string \<Rightarrow> fs \<Rightarrow> (err + path option) \<times> fs" where
  "find_s2_model env exp_dir speaker_name fs =
     (let logs_dir = path_join exp_dir ''logs_s2_v2'' in
      if \<not> path_exists fs logs_dir then (Inr None, fs)
      else
        (case listdir fs logs_dir of
           Inl e \<Rightarrow> (Inl e, fs)
         | Inr names \<Rightarrow>
             (case py_sort_reverse (\<lambda>x. x) (filter (is_weight_file speaker_name) names) of
                f # _ \<Rightarrow> (Inr (Some (path_join logs_dir f)), fs)
              | [] \<Rightarrow>
                  (case newest env logs_dir
                          (filter (\<lambda>f. startswith f ''G_'' \<and> endswith f ''.pth'') names) of
                     None \<Rightarrow> (Inr None, fs)
                   | Some g \<Rightarrow>
                       let checkpoint_path = path_join logs_dir g in
                       (case convert_checkpoint_to_weight env checkpoint_path logs_dir
                               speaker_name (path_join exp_dir ''s2_config.json'') fs of
                          (Some weight_path, fs') \<Rightarrow>
                            if weight_path \<noteq> [] then (Inr (Some weight_path), fs')
                            else (Inr (Some checkpoint_path), fs')
                        | (None, fs') \<Rightarrow> (Inr (Some checkpoint_path), fs'))))))"

definition train_stage2_sovits ::
  "env \<Rightarrow> trainer \<Rightarrow> path \<Rightarrow> string \<Rightarrow> int \<Rightarrow> int \<Rightarrow> world \<Rightarrow> (err + path option) \<times> world" where
  "train_stage2_sovits env tr exp_dir speaker_name epochs batch_size w =
     (case read_file (files w) (path_join (sovits_path tr) ''GPT_SoVITS/configs/s2.json'') of
        Inl e \<Rightarrow> (Inl e, w)
      | Inr template \<Rightarrow>
          (case render_s2_config env template exp_dir speaker_name epochs batch_size of
             Inl e \<Rightarrow> (Inl e, w)
           | Inr config \<Rightarrow>
               (case s2_prepare_inputs env exp_dir (files w) of
                  Inl e \<Rightarrow> (Inl e, w)
                | Inr fs1 \<Rightarrow>
                    let fs2 = makedirs fs1 (path_join exp_dir ''logs_s2_v2'');
                        fs3 = write_file fs2 (path_join exp_dir ''s2_config.json'') config
                    in (case run_step env S2Train (w\<lparr>files := fs3\<rparr>) of (rc, w1) \<Rightarrow>
                        if rc \<noteq> 0 then (Inr None, w1)
                        else (case find_s2_model env exp_dir speaker_name (files w1) of
                                (r, fs4) \<Rightarrow> (r, w1\<lparr>files := fs4\<rparr>))))))"

section \<open>Training orchestrator: the whole pipeline\<close>

definition train_speaker_complete ::
  "env \<Rightarrow> trainer \<Rightarrow> string \<Rightarrow> audio_info list \<Rightarrow> (string \<times> string) list \<Rightarrow> int \<Rightarrow> int \<Rightarrow> int
     \<Rightarrow> world \<Rightarrow> train_result \<times> world" where
  "train_speaker_complete env tr speaker_name audio_files audio_text_map s1_epochs s2_epochs
       batch_size w =
     (let result = \<lparr>res_speaker_name = speaker_name, res_status = ''failed'',
                    res_gpt_model = None, res_sovits_model = None, res_exp_dir = None,
                    res_error = None\<rparr>
      in (case prepare_training_data env tr speaker_name audio_files audio_text_map w of
            (Inl e, w1) \<Rightarrow> (result\<lparr>res_error := Some e\<rparr>, w1)
          | (Inr exp_dir, w1) \<Rightarrow>
              let result = result\<lparr>res_exp_dir := Some exp_dir\<rparr> in
              (case run_data_preprocessing env exp_dir speaker_name w1 of
                 (Inl e, w2) \<Rightarrow> (result\<lparr>res_error := Some e\<rparr>, w2)
               | (Inr False, w2) \<Rightarrow> (result\<lparr>res_error := Some PreprocessingFailed\<rparr>, w2)
               | (Inr True, w2) \<Rightarrow>
                   (case train_stage1_gpt env tr exp_dir speaker_name s1_epochs batch_size w2 of
                      (Inl e, w3) \<Rightarrow> (result\<lparr>res_error := Some e\<rparr>, w3)
                    | (Inr None, w3) \<Rightarrow> (result\<lparr>res_error := Some Stage1Failed\<rparr>, w3)
                    | (Inr (Some gpt_model), w3) \<Rightarrow>
                        let result = result\<lparr>res_gpt_model := Some gpt_model\<rparr> in
                        (case train_stage2_sovits env tr exp_dir speaker_name s2_epochs
                                batch_size w3 of
                           (Inl e, w4) \<Rightarrow> (result\<lparr>res_error := Some e\<rparr>, w4)
                         | (Inr None, w4) \<Rightarrow> (result\<lparr>res_error := Some Stage2Failed\<rparr>, w4)
                         | (Inr (Some sovits_model), w4) \<Rightarrow>
                             (result\<lparr>res_sovits_model := Some sovits_model,
                                     res_status := ''completed''\<rparr>, w4))))))"

section \<open>Audio generator: state\<close>

text \<open>
  An entry of the training status tracker. \<open>get_training_status\<close> answers \<open>NotStarted\<close> for
  a speaker without an entry.
\<close>

datatype training_job =
    NotStarted
  | Training (progress: nat) (start_time: string) (total_epochs: int)
  | Completed (progress: nat) (end_time: string) (job_result: model_result)
  | Failed (job_error: err) (end_time: string)

text \<open>The fields of \<open>AudioGeneratorSoVITS\<close>; \<open>disk\<close> is the file system the process works
  on, together with the steps it has launched.\<close>

record generator =
  speakers_data :: "(string \<times> speaker_info) list"
  training_status :: "string \<rightharpoonup> training_job"
  the_trainer :: "trainer option"
  api_available :: bool
  disk :: world

definition speakers_file :: path where
  "speakers_file = ''models/speakers_sovits.json''"

definition training_data_dir :: path where
  "training_data_dir = ''models/training_data''"

definition trained_models_dir :: path where
  "trained_models_dir = ''models/trained_speakers''"

text \<open>The readings of the clock during one call of \<open>train_speaker\<close>.\<close>

record clock =
  t_start :: string
  t_trained :: string
  t_end :: string

definition get_training_status :: "generator \<Rightarrow> string \<Rightarrow> training_job" where
  "get_training_status g speaker_name =
     (case training_status g speaker_name of None \<Rightarrow> NotStarted | Some j \<Rightarrow> j)"

definition save_speakers_data :: "env \<Rightarrow> generator \<Rightarrow> generator" where
  "save_speakers_data env g =
     g\<lparr>disk := (disk g)\<lparr>files :=
          write_file (makedirs (files (disk g)) ''models'') speakers_file
            (dump_speakers env (speakers_data g))\<rparr>\<rparr>"

section \<open>Audio generator: upload\<close>

record upload_result =
  up_duration :: real
  up_sample_rate :: int
  up_speaker_audio_count :: nat

text \<open>The body of the \<open>try\<close> of \<open>process_reference_audio\<close>. The duration is measured
  before the audio is resampled; the rate that is stored is the one after it.\<close>

definition store_audio ::
  "env \<Rightarrow> string \<Rightarrow> path \<Rightarrow> string \<Rightarrow> generator \<Rightarrow> (err + upload_result) \<times> generator" where
  "store_audio env now audio_path speaker_name g =
     (case read_file (files (disk g)) audio_path of
        Inl e \<Rightarrow> (Inl e, g)
      | Inr bytes \<Rightarrow>
          (case librosa_load env bytes of
             Inl e \<Rightarrow> (Inl e, g)
           | Inr (n_samples, sr) \<Rightarrow>
               if sr = 0 then (Inl ZeroDivisionError, g)
               else
                 let dur = int_truediv (int n_samples) sr;
                     speaker_dir = path_join training_data_dir speaker_name;
                     fs1 = makedirs (files (disk g)) speaker_dir;
                     dest_path = path_join speaker_dir (basename audio_path)
                 in (case (if sr \<noteq> 32000
                           then Inr (write_file fs1 dest_path (resample_to_32k env bytes))
                           else copy2 env fs1 audio_path dest_path) of
                       Inl e \<Rightarrow> (Inl e, g\<lparr>disk := (disk g)\<lparr>files := fs1\<rparr>\<rparr>)
                     | Inr fs2 \<Rightarrow>
                      let sr = (if sr \<noteq> 32000 then 32000 else sr);
                          old = (case map_of (speakers_data g) speaker_name of
                                   None \<Rightarrow> \<lparr>the_audio_files = [], created_at = now,
                                             trained = False, model_path = None,
                                             model_info = None, trained_at = None,
                                             training_epochs = None\<rparr>
                                 | Some info \<Rightarrow> info);
                          new = old\<lparr>the_audio_files := the_audio_files old @
                                  [\<lparr>path = dest_path, original_path = Some audio_path,
                                    duration = Some dur, sample_rate = Some sr,
                                    uploaded_at = Some now, transcript = None\<rparr>]\<rparr>;
                          g1 = save_speakers_data env
                                 (g\<lparr>speakers_data := AList.update speaker_name new (speakers_data g),
                                    disk := (disk g)\<lparr>files := fs2\<rparr>\<rparr>)
                      in (Inr \<lparr>up_duration = dur, up_sample_rate = sr,
                                up_speaker_audio_count = length (the_audio_files new)\<rparr>, g1))))"

definition process_reference_audio ::
  "env \<Rightarrow> string \<Rightarrow> path \<Rightarrow> string \<Rightarrow> generator \<Rightarrow> (err + upload_result) \<times> generator" where
  "process_reference_audio env now audio_path speaker_name g =
     (case store_audio env now audio_path speaker_name g of
        (Inl e, g') \<Rightarrow> (Inl (ProcessingFailed e), g')
      | (Inr r, g') \<Rightarrow> (Inr r, g'))"

section \<open>Audio generator: training\<close>

text \<open>\<open>int(epochs * 0.67)\<close>: the product of floats, truncated towards zero.\<close>

definition int_two_thirds :: "int \<Rightarrow> int" where
  "int_two_thirds epochs = py_int (float_mul (float_of_int epochs) float_0_67)"

definition train_with_sovits_complete ::
  "env \<Rightarrow> trainer \<Rightarrow> string \<Rightarrow> int \<Rightarrow> int \<Rightarrow> generator \<Rightarrow> (err + model_result) \<times> generator" where
  "train_with_sovits_complete env tr speaker_name epochs batch_size g =
     (case map_of (speakers_data g) speaker_name of
        None \<Rightarrow> (Inl (ExternalError ''KeyError''), g)
      | Some info \<Rightarrow>
          let audio_files = the_audio_files info;
              s2_epochs = max 8 (int_two_thirds epochs)
          in (case train_speaker_complete env tr speaker_name audio_files [] epochs s2_epochs
                     batch_size (disk g) of
                (result, w) \<Rightarrow>
                  if res_status result \<noteq> ''completed''
                  then (Inl (TrainingFailed
                               (case res_error result of None \<Rightarrow> NoneText | Some e \<Rightarrow> e)),
                        g\<lparr>disk := w\<rparr>)
                  else
                    let model_output_dir = path_join trained_models_dir speaker_name;
                        fs1 = makedirs (files w) model_output_dir;
                        fs2 = write_file fs1 (path_join model_output_dir ''model_info.json'')
                                (dump_model_info env result (length audio_files) epochs s2_epochs)
                    in (Inr \<lparr>mr_model_path = model_output_dir,
                              mr_gpt_model = res_gpt_model result,
                              mr_sovits_model = res_sovits_model result,
                              mr_method = ''gpt_sovits_trained'',
                              mr_quality = ''high''\<rparr>,
                        g\<lparr>disk := w\<lparr>files := fs2\<rparr>\<rparr>)))"

record train_summary =
  ts_model_path :: path
  ts_audio_count :: nat
  ts_epochs :: int

definition train_speaker ::
  "env \<Rightarrow> clock \<Rightarrow> string \<Rightarrow> int \<Rightarrow> int \<Rightarrow> generator \<Rightarrow> (err + train_summary) \<times> generator" where
  "train_speaker env clk speaker_name epochs batch_size g =
     (case map_of (speakers_data g) speaker_name of
        None \<Rightarrow> (Inl (SpeakerNotFound speaker_name), g)
      | Some info \<Rightarrow>
          let audio_files = the_audio_files info in
          if length audio_files < 3 then (Inl (NotEnoughAudio (length audio_files)), g)
          else
            let g1 = g\<lparr>training_status := (training_status g)
                        (speaker_name \<mapsto> Training 0 (t_start clk) epochs)\<rparr>
            in (case (case the_trainer g1 of
                        Some tr \<Rightarrow> train_with_sovits_complete env tr speaker_name epochs batch_size g1
                      | None \<Rightarrow> (Inl TrainerNotInitialised, g1)) of
                  (Inl e, g2) \<Rightarrow>
                    (Inl (TrainingFailed e),
                     g2\<lparr>training_status := (training_status g2)
                          (speaker_name \<mapsto> Failed e (t_end clk))\<rparr>)
                | (Inr result, g2) \<Rightarrow>
                    let info' = info\<lparr>trained := True, model_info := Some result,
                                      trained_at := Some (t_trained clk),
                                      training_epochs := Some epochs\<rparr>;
                        g3 = save_speakers_data env
                               (g2\<lparr>speakers_data :=
                                      AList.update speaker_name info' (speakers_data g2)\<rparr>);
                        g4 = g3\<lparr>training_status := (training_status g3)
                                  (speaker_name \<mapsto> Completed 100 (t_end clk) result)\<rparr>
                    in (Inr \<lparr>ts_model_path = mr_model_path result,
                              ts_audio_count = length audio_files,
                              ts_epochs = epochs\<rparr>, g4)))"

section \<open>Audio generator: listing and deletion\<close>

record speaker_summary =
  sm_name :: string
  sm_audio_count :: nat
  sm_trained :: bool

definition list_speakers :: "generator \<Rightarrow> speaker_summary list" where
  "list_speakers g =
     map (\<lambda>(name, info). \<lparr>sm_name = name, sm_audio_count = length (the_audio_files info),
                            sm_trained = trained info\<rparr>)
       (speakers_data g)"

definition remove_original :: "audio_info \<Rightarrow> fs \<Rightarrow> err + fs" where
  "remove_original audio fs =
     (case original_path audio of
        None \<Rightarrow> Inr fs
      | Some p \<Rightarrow> if p \<noteq> [] \<and> path_exists fs p then os_remove fs p else Inr fs)"

definition delete_speaker :: "env \<Rightarrow> string \<Rightarrow> generator \<Rightarrow> err option \<times> generator" where
  "delete_speaker env speaker_name g =
     (case map_of (speakers_data g) speaker_name of
        None \<Rightarrow> (Some (SpeakerNotFound speaker_name), g)
      | Some info \<Rightarrow>
          (case for_each (rmtree_if_exists training_data_dir) [speaker_name] (files (disk g)) of
             (Some e, fs1) \<Rightarrow> (Some e, g\<lparr>disk := (disk g)\<lparr>files := fs1\<rparr>\<rparr>)
           | (None, fs1) \<Rightarrow>
               (case for_each (rmtree_if_exists trained_models_dir) [speaker_name] fs1 of
                  (Some e, fs2) \<Rightarrow> (Some e, g\<lparr>disk := (disk g)\<lparr>files := fs2\<rparr>\<rparr>)
                | (None, fs2) \<Rightarrow>
                    (case for_each remove_original (the_audio_files info) fs2 of
                       (Some e, fs3) \<Rightarrow> (Some e, g\<lparr>disk := (disk g)\<lparr>files := fs3\<rparr>\<rparr>)
                     | (None, fs3) \<Rightarrow>
                         (None,
                          save_speakers_data env
                            (g\<lparr>speakers_data := AList.delete speaker_name (speakers_data g),
                               disk := (disk g)\<lparr>files := fs3\<rparr>\<rparr>))))))"

section \<open>Audio generator: synthesis\<close>

text \<open>\<open>language_mapping.get(language.lower(), language)\<close>. Lower-casing is given for the
  ASCII letters and for the Kelvin sign, the only other character that lower-cases to a
  letter of a key of the mapping.\<close>

definition lower_char :: "char \<Rightarrow> char" where
  "lower_char c =
     (case map_of (zip ''ABCDEFGHIJKLMNOPQRSTUVWXYZ'' ''abcdefghijklmnopqrstuvwxyz'') c of
        None \<Rightarrow> c | Some l \<Rightarrow> l)"

fun py_lower :: "string \<Rightarrow> string" where
  "py_lower [] = []"
| "py_lower (c # cs) =
     (if prefix [CHR 0xE2, CHR 0x84, CHR 0xAA] (c # cs) then CHR ''k'' # py_lower (drop 2 cs)
      else lower_char c # py_lower cs)"

definition language_mapping :: "(string \<times> string) list" where
  "language_mapping =
     [(''zh-cn'', ''zh''), (''zh-tw'', ''zh''), (''en-us'', ''en''), (''en-gb'', ''en''),
      (''ja-jp'', ''ja''), (''ko-kr'', ''ko'')]"

definition normalize_language :: "string \<Rightarrow> string" where
  "normalize_language language =
     (case map_of language_mapping (py_lower language) of None \<Rightarrow> language | Some l \<Rightarrow> l)"

text \<open>The duration of the placeholder clip, in seconds, and the number of zero samples
  written for it: \<open>int(duration * sr)\<close> at 32000 Hz.\<close>

definition placeholder_duration :: "string \<Rightarrow> string \<Rightarrow> real" where
  "placeholder_duration txt language =
     (let estimated_duration =
            (if startswith language ''zh''
             then float_mul (float_of_int (int (py_len txt))) float_0_3
             else float_mul (float_of_int (int (length (py_split_ws txt)))) float_0_2)
      in max 1 (min estimated_duration 30))"

definition placeholder_frames :: "string \<Rightarrow> string \<Rightarrow> int" where
  "placeholder_frames txt language =
     py_int (float_mul (placeholder_duration txt language) (float_of_int 32000))"

definition generate_placeholder :: "env \<Rightarrow> string \<Rightarrow> path \<Rightarrow> string \<Rightarrow> fs \<Rightarrow> fs" where
  "generate_placeholder env txt output_path language fs =
     write_file fs output_path (silent_wav env (placeholder_frames txt language))"

definition to_absolute_path :: "env \<Rightarrow> path \<Rightarrow> path" where
  "to_absolute_path env p = (if startswith p ''/'' then p else abspath env p)"

text \<open>The two calls of the inference client; every exception inside them gives false.\<close>

definition api_generate_speech :: "env \<Rightarrow> tts_request \<Rightarrow> path \<Rightarrow> fs \<Rightarrow> bool \<times> fs" where
  "api_generate_speech env req output_path fs =
     (case http_tts env req of
        Some audio \<Rightarrow> (True, write_file fs output_path audio)
      | None \<Rightarrow> (False, fs))"

definition api_generate_with_trained_model ::
  "env \<Rightarrow> tts_request \<Rightarrow> path \<Rightarrow> path \<Rightarrow> path \<Rightarrow> fs \<Rightarrow> bool \<times> fs" where
  "api_generate_with_trained_model env req gpt_model_path sovits_model_path output_path fs =
     (if \<not> path_exists fs gpt_model_path then (False, fs)
      else if \<not> path_exists fs sovits_model_path then (False, fs)
      else if \<not> path_exists fs (req_ref_audio_path req) then (False, fs)
      else if \<not> http_set_gpt_weights env gpt_model_path then (False, fs)
      else if \<not> http_set_sovits_weights env sovits_model_path then (False, fs)
      else api_generate_speech env req output_path fs)"

definition make_request ::
  "env \<Rightarrow> string \<Rightarrow> string \<Rightarrow> audio_info \<Rightarrow> audio_info list \<Rightarrow> tts_request" where
  "make_request env txt language best_ref aux_refs =
     \<lparr>req_text = txt, req_text_lang = language,
      req_ref_audio_path = to_absolute_path env (path best_ref),
      req_prompt_text = (case transcript best_ref of None \<Rightarrow> [] | Some t \<Rightarrow> t),
      req_aux_ref_audio_paths = map (\<lambda>a. to_absolute_path env (path a)) aux_refs\<rparr>"

definition generate_with_trained_model ::
  "env \<Rightarrow> string \<Rightarrow> model_result \<Rightarrow> speaker_info \<Rightarrow> path \<Rightarrow> string \<Rightarrow> fs \<Rightarrow> err option \<times> fs" where
  "generate_with_trained_model env txt minfo info output_path language fs =
     (case (mr_gpt_model minfo, mr_sovits_model minfo) of
        (Some gpt, Some sovits) \<Rightarrow>
          if gpt = [] \<or> sovits = [] then (Some ModelPathsIncomplete, fs)
          else
            (case select_best_reference_audio (the_audio_files info) of
               Inl e \<Rightarrow> (Some (SelectionFailed e), fs)
             | Inr best_ref \<Rightarrow>
                 (case api_generate_with_trained_model env
                         (make_request env txt language best_ref
                            (select_auxiliary_references (the_audio_files info) 3))
                         gpt sovits output_path fs of
                    (True, fs') \<Rightarrow> (None, fs')
                  | (False, fs') \<Rightarrow> (Some ApiGenerationFailed, fs')))
      | _ \<Rightarrow> (Some ModelPathsIncomplete, fs))"

definition generate_with_api_reference ::
  "env \<Rightarrow> string \<Rightarrow> speaker_info \<Rightarrow> path \<Rightarrow> string \<Rightarrow> fs \<Rightarrow> err option \<times> fs" where
  "generate_with_api_reference env txt info output_path language fs =
     (case select_best_reference_audio (the_audio_files info) of
        Inl e \<Rightarrow> (Some (SelectionFailed e), fs)
      | Inr best_ref \<Rightarrow>
          (case api_generate_speech env
                  (make_request env txt language best_ref
                     (select_auxiliary_references (the_audio_files info) 5))
                  output_path fs of
             (True, fs') \<Rightarrow> (None, fs')
           | (False, fs') \<Rightarrow> (Some ApiGenerationFailed, fs')))"

text \<open>\<open>generate_speech\<close>; \<open>uid\<close> is the eight hexadecimal digits taken from a fresh UUID.\<close>

definition generate_speech ::
  "env \<Rightarrow> string \<Rightarrow> string \<Rightarrow> string \<Rightarrow> string \<Rightarrow> generator \<Rightarrow> (err + path) \<times> generator" where
  "generate_speech env uid txt speaker_name language0 g =
     (let language = normalize_language language0 in
      case map_of (speakers_data g) speaker_name of
        None \<Rightarrow> (Inl (SpeakerDataNotFound speaker_name), g)
      | Some info \<Rightarrow>
          if \<not> trained info
          then (Inl (NotTrained speaker_name (length (the_audio_files info))), g)
          else
            let output_path = path_join ''outputs'' (speaker_name @ ''_'' @ uid @ ''.wav'');
                fs = files (disk g);
                trained_method = (case model_info info of
                                    None \<Rightarrow> False
                                  | Some minfo \<Rightarrow> mr_method minfo = ''gpt_sovits_trained'')
            in (case (if trained_method \<and> api_available g
                      then (case model_info info of
                              Some minfo \<Rightarrow>
                                generate_with_trained_model env txt minfo info output_path
                                  language fs
                            | None \<Rightarrow> (Some ModelPathsIncomplete, fs))
                      else if api_available g
                      then generate_with_api_reference env txt info output_path language fs
                      else (None, generate_placeholder env txt output_path language fs)) of
                  (Some e, fs') \<Rightarrow> (Inl (SynthesisFailed e), g\<lparr>disk := (disk g)\<lparr>files := fs'\<rparr>\<rparr>)
                | (None, fs') \<Rightarrow> (Inr output_path, g\<lparr>disk := (disk g)\<lparr>files := fs'\<rparr>\<rparr>)))"

section \<open>HTTP layer\<close>

datatype http_error =
    Http404 string
  | Http400 nat
  | Http500 err
  | Http500_output_missing

text \<open>The JSON body that \<open>/generate_audio\<close> returns; the message is the fixed Chinese
  text for a successful generation, in UTF-8.\<close>

record audio_response =
  ar_status :: string
  ar_message :: string
  ar_audio_url :: string
  ar_text :: string
  ar_speaker :: string

definition msg_audio_generated :: string where
  "msg_audio_generated =
     [CHR 0xE9, CHR 0x9F, CHR 0xB3, CHR 0xE9, CHR 0xA2, CHR 0x91, CHR 0xE7, CHR 0x94, CHR 0x9F,
      CHR 0xE6, CHR 0x88, CHR 0x90, CHR 0xE6, CHR 0x88, CHR 0x90, CHR 0xE5, CHR 0x8A, CHR 0x9F]"

definition generate_audio ::
  "env \<Rightarrow> string \<Rightarrow> string \<Rightarrow> string \<Rightarrow> string \<Rightarrow> generator
     \<Rightarrow> (http_error + audio_response) \<times> generator" where
  "generate_audio env uid txt speaker_name language g =
     (case generate_speech env uid txt speaker_name language g of
        (Inl e, g') \<Rightarrow> (Inl (Http500 e), g')
      | (Inr output_path, g') \<Rightarrow>
          if \<not> path_exists (files (disk g')) output_path
          then (Inl Http500_output_missing, g')
          else (Inr \<lparr>ar_status = ''success'', ar_message = msg_audio_generated,
                     ar_audio_url = ''/download_audio/'' @ basename output_path,
                     ar_text = txt, ar_speaker = speaker_name\<rparr>, g'))"

text \<open>The JSON body that \<open>/train_speaker\<close> returns once the training task is scheduled
  (its texts for the user are left out).\<close>

record train_accepted =
  ta_status :: string
  ta_speaker_name :: string
  ta_audio_count :: nat
  ta_epochs :: int

definition app_train_speaker ::
  "generator \<Rightarrow> string \<Rightarrow> int \<Rightarrow> int \<Rightarrow> http_error + train_accepted" where
  "app_train_speaker g speaker_name epochs batch_size =
     (case find (\<lambda>s. sm_name s = speaker_name) (list_speakers g) of
        None \<Rightarrow> Inl (Http404 speaker_name)
      | Some s \<Rightarrow>
          if sm_audio_count s < 3 then Inl (Http400 (sm_audio_count s))
          else Inr \<lparr>ta_status = ''success'', ta_speaker_name = speaker_name,
                    ta_audio_count = sm_audio_count s, ta_epochs = epochs\<rparr>)"

text \<open>The background task: the exception of a failed training is printed and dropped.\<close>

definition train_task :: "env \<Rightarrow> clock \<Rightarrow> string \<Rightarrow> int \<Rightarrow> int \<Rightarrow> generator \<Rightarrow> generator" where
  "train_task env clk speaker_name epochs batch_size g =
     snd (train_speaker env clk speaker_name epochs batch_size g)"

text \<open>A request to \<open>/train_speaker\<close> followed by the run of the task it schedules.\<close>

definition train_request ::
  "env \<Rightarrow> clock \<Rightarrow> string \<Rightarrow> int \<Rightarrow> int \<Rightarrow> generator
     \<Rightarrow> (http_error + train_accepted) \<times> generator" where
  "train_request env clk speaker_name epochs batch_size g =
     (case app_train_speaker g speaker_name epochs batch_size of
        Inl e \<Rightarrow> (Inl e, g)
      | Inr r \<Rightarrow> (Inr r, train_task env clk speaker_name epochs batch_size g))"

section \<open>Example data\<close>

text \<open>Four samples at 32 kHz with durations of 4, 9, 8.5 and 12 seconds.\<close>

definition s_a :: audio_info where
  "s_a = \<lparr>path = ''a.wav'', original_path = None, duration = Some 4, sample_rate = Some 32000,
     uploaded_at = None, transcript = None\<rparr>"
definition s_b :: audio_info where
  "s_b = \<lparr>path = ''b.wav'', original_path = None, duration = Some 9, sample_rate = Some 32000,
     uploaded_at = None, transcript = None\<rparr>"
definition s_c :: audio_info where
  "s_c = \<lparr>path = ''c.wav'', original_path = None, duration = Some 8.5, sample_rate = Some 32000,
     uploaded_at = None, transcript = None\<rparr>"
definition s_d :: audio_info where
  "s_d = \<lparr>path = ''d.wav'', original_path = None, duration = Some 12, sample_rate = Some 32000,
     uploaded_at = None, transcript = None\<rparr>"


(*DEFS_END*)

section \<open>Properties of the reference scorer\<close>

lemma py_sort_reverse_mset: "mset (py_sort_reverse key xs) = mset xs"
  by (simp add: py_sort_reverse_def)

lemma py_sort_reverse_descending:
  "sorted_wrt (\<lambda>x y. key y \<le> key x) (py_sort_reverse key xs)"
proof -
  have "sorted (map key (sort_key key (rev xs)))"
    by (rule sorted_sort_key)
  then have "sorted_wrt (\<lambda>x y. key x \<le> key y) (sort_key key (rev xs))"
    by (simp add: sorted_map)
  then show ?thesis
    by (simp add: py_sort_reverse_def sorted_wrt_rev)
qed

lemma py_sort_reverse_stable:
  "filter (\<lambda>x. key x = v) (py_sort_reverse key xs) = filter (\<lambda>x. key x = v) xs"
  by (simp add: py_sort_reverse_def rev_filter [symmetric] sort_key_stable)

lemma py_sort_reverse_set: "set (py_sort_reverse key xs) = set xs"
  by (simp add: py_sort_reverse_def)

lemma py_sort_reverse_hd:
  assumes "xs \<noteq> []"
  shows "hd (py_sort_reverse key xs) = hd (filter (\<lambda>x. key x = Max (key ` set xs)) xs)"
proof -
  define ys where "ys = py_sort_reverse key xs"
  have sets: "set ys = set xs"
    by (simp add: ys_def py_sort_reverse_set)
  with assms have "ys \<noteq> []"
    by auto
  then obtain y rest where ys: "ys = y # rest"
    by (cases ys) auto
  have desc: "sorted_wrt (\<lambda>a b. key b \<le> key a) ys"
    unfolding ys_def by (rule py_sort_reverse_descending)
  have le: "key z \<le> key y" if "z \<in> set xs" for z
    using that desc sets ys by auto
  have "y \<in> set xs"
    using sets ys by auto
  then have m: "Max (key ` set xs) = key y"
    using le by (intro Max_eqI) auto
  have "filter (\<lambda>x. key x = key y) xs = filter (\<lambda>x. key x = key y) ys"
    unfolding ys_def by (rule py_sort_reverse_stable [symmetric])
  then have "hd (filter (\<lambda>x. key x = key y) xs) = y"
    by (simp add: ys)
  then show ?thesis
    using ys by (simp add: m ys_def)
qed



lemma length_scored_audios: "length (scored_audios xs) = length (valid_audios xs)"
  by (simp add: scored_audios_def py_sort_reverse_def)

lemma py_slice_from_one:
  assumes "0 \<le> c" and "2 \<le> length xs"
  shows "py_slice xs 1 (min c (int (length xs) - 1) + 1) = take (nat c) (tl xs)"
proof -
  have lo: "py_slice_index (length xs) 1 = 1"
    using assms by (simp add: py_slice_index_def)
  have hi: "py_slice_index (length xs) (min c (int (length xs) - 1) + 1) = min (nat c) (length xs - 1) + 1"
    using assms by (auto simp add: py_slice_index_def min_def)
  have "take (min (nat c) (length xs - 1)) (tl xs) = take (nat c) (tl xs)"
    by (simp add: min_def)
  then show ?thesis
    by (simp add: py_slice_def lo hi drop_Suc)
qed

lemma best_is_first_maximal:
  assumes "valid_audios xs \<noteq> []"
  shows "snd (hd (scored_audios xs)) =
         hd (filter (\<lambda>a. calculate_audio_quality_score a
                           = Max (calculate_audio_quality_score ` set (valid_audios xs)))
                    (valid_audios xs))"
proof -
  define f where "f = (\<lambda>a. (calculate_audio_quality_score a, a))"
  define vs where "vs = valid_audios xs"
  define M where "M = Max (calculate_audio_quality_score ` set vs)"
  have img: "fst ` set (map f vs) = calculate_audio_quality_score ` set vs"
    by (auto simp add: f_def image_iff)
  have "M \<in> calculate_audio_quality_score ` set vs"
    unfolding M_def using assms by (intro Max_in) (auto simp add: vs_def)
  then have ne: "filter (\<lambda>a. calculate_audio_quality_score a = M) vs \<noteq> []"
    by (auto simp add: filter_empty_conv)
  have "hd (scored_audios xs) = hd (filter (\<lambda>x. fst x = M) (map f vs))"
    unfolding scored_audios_def f_def [symmetric] vs_def [symmetric] M_def img [symmetric]
    using assms by (intro py_sort_reverse_hd) (simp add: vs_def)
  also have "filter (\<lambda>x. fst x = M) (map f vs) = map f (filter (\<lambda>a. calculate_audio_quality_score a = M) vs)"
    by (simp add: filter_map o_def f_def)
  also have "hd \<dots> = f (hd (filter (\<lambda>a. calculate_audio_quality_score a = M) vs))"
    using ne by (simp add: hd_map)
  finally show ?thesis
    by (simp add: f_def M_def vs_def)
qed

lemma s_durations: "get_duration s_a = 4" "get_duration s_b = 9" "get_duration s_c = 8.5" "get_duration s_d = 12"
  by (simp_all add: get_duration_def s_a_def s_b_def s_c_def s_d_def)

lemma s_scores: "calculate_audio_quality_score s_a = 70" "calculate_audio_quality_score s_b = 90"
  "calculate_audio_quality_score s_c = 90" "calculate_audio_quality_score s_d = 100"
  by (simp_all add: calculate_audio_quality_score_def s_durations duration_bonus_def sample_rate_bonus_def)
     (simp_all add: get_sample_rate_def s_a_def s_b_def s_c_def s_d_def)

lemma s_valid: "valid_audios [s_a, s_b, s_c, s_d] = [s_a, s_b, s_c]"
  by (simp add: valid_audios_def s_durations)

lemma s_scored: "scored_audios [s_a, s_b, s_c, s_d] = [(90, s_b), (90, s_c), (70, s_a)]"
  by (simp add: scored_audios_def s_valid s_scores py_sort_reverse_def)

subsection \<open>Claim C8: the quality score of an eligible sample\<close>



subsection \<open>Claim C7: the ranking is a stable descending sort\<close>

text \<open>
  C7. The ranking is a function of the sample list alone. It is a permutation of the scored
  eligible samples, sorted by descending score, and samples of equal score keep their
  insertion order. Hence the primary reference is the earliest sample of maximal score
  among the eligible ones, and the auxiliary references are the next ranks of the same
  ranking (for a non-negative requested count).
\<close>

theorem reference_ranking:
  "mset (scored_audios audio_files)
       = mset (map (\<lambda>a. (calculate_audio_quality_score a, a)) (valid_audios audio_files))
   \<and> sorted_wrt (\<lambda>x y. fst y \<le> fst x) (scored_audios audio_files)
   \<and> (\<forall>v. filter (\<lambda>x. fst x = v) (scored_audios audio_files)
           = filter (\<lambda>x. fst x = v)
               (map (\<lambda>a. (calculate_audio_quality_score a, a)) (valid_audios audio_files)))
   \<and> (valid_audios audio_files \<noteq> [] \<longrightarrow>
        select_best_reference_audio audio_files =
          Inr (hd (filter (\<lambda>a. calculate_audio_quality_score a
                             = Max (calculate_audio_quality_score ` set (valid_audios audio_files)))
                    (valid_audios audio_files))))
   \<and> (0 \<le> count_arg \<longrightarrow>
        select_auxiliary_references audio_files count_arg =
          (if length (valid_audios audio_files) \<le> 1 then []
           else map snd (take (nat count_arg) (tl (scored_audios audio_files)))))"
proof (intro conjI allI impI)
  show "mset (scored_audios audio_files)
       = mset (map (\<lambda>a. (calculate_audio_quality_score a, a)) (valid_audios audio_files))"
    unfolding scored_audios_def by (rule py_sort_reverse_mset)
  show "sorted_wrt (\<lambda>x y. fst y \<le> fst x) (scored_audios audio_files)"
    unfolding scored_audios_def by (rule py_sort_reverse_descending)
  show "filter (\<lambda>x. fst x = v) (scored_audios audio_files)
           = filter (\<lambda>x. fst x = v)
               (map (\<lambda>a. (calculate_audio_quality_score a, a)) (valid_audios audio_files))" for v
    unfolding scored_audios_def by (rule py_sort_reverse_stable)
next
  assume ne: "valid_audios audio_files \<noteq> []"
  then have "audio_files \<noteq> []"
    by (auto simp add: valid_audios_def)
  with ne show "select_best_reference_audio audio_files =
          Inr (hd (filter (\<lambda>a. calculate_audio_quality_score a
                             = Max (calculate_audio_quality_score ` set (valid_audios audio_files)))
                    (valid_audios audio_files)))"
    by (simp add: select_best_reference_audio_def best_is_first_maximal)
next
  assume c: "0 \<le> count_arg"
  have len: "length (valid_audios audio_files) \<le> length audio_files"
    by (simp add: valid_audios_def)
  show "select_auxiliary_references audio_files count_arg =
          (if length (valid_audios audio_files) \<le> 1 then []
           else map snd (take (nat count_arg) (tl (scored_audios audio_files))))"
  proof (cases "length (valid_audios audio_files) \<le> 1")
    case True
    then show ?thesis
      by (simp add: select_auxiliary_references_def)
  next
    case False
    then have two: "2 \<le> length (scored_audios audio_files)"
      by (simp add: length_scored_audios)
    from False len have "\<not> (audio_files = [] \<or> length audio_files \<le> 1)"
      by auto
    with False show ?thesis
      by (simp add: select_auxiliary_references_def Let_def py_slice_from_one [OF c two])
  qed
qed

text \<open>
  Witness for C7: the 9-second and the 8.5-second samples tie at 90; the earlier one is the
  primary reference, the later one is the first auxiliary reference.
\<close>

theorem reference_ranking_witness:
  "valid_audios [s_a, s_b, s_c, s_d] \<noteq> [] \<and> (0::int) \<le> 3
   \<and> select_best_reference_audio [s_a, s_b, s_c, s_d] = Inr s_b
   \<and> select_auxiliary_references [s_a, s_b, s_c, s_d] 3 = [s_c, s_a]"
proof -
  have mx: "Max (calculate_audio_quality_score ` set [s_a, s_b, s_c]) = 90"
    by (simp add: s_scores)
  show ?thesis
    using reference_ranking [of "[s_a, s_b, s_c, s_d]" 3]
    by (simp add: s_valid s_scored mx s_scores)
qed

subsection \<open>Claim C6: no sample in the window of 3 to 10 seconds\<close>




end
